theory Spec2Isabelle
  imports Complex_Main
begin

section \<open>Python and numpy primitives used by \<open>data/synth_dataset_me.py\<close>\<close>

text \<open>
  Python integers are unbounded and are modelled by \<open>int\<close>. A finite float is modelled
  by the real number it denotes and float arithmetic by the arithmetic of the
  reals, so the rounding of a float product is not part of the model. The exceptions the
  module can raise are the values of \<open>py_error\<close>.
\<close>

datatype py_error =
    NotImplementedError
  | AttributeError string
  | ZeroDivisionError
  | KeyError int

text \<open>\<open>int(x)\<close> on a float truncates towards zero.\<close>

definition py_int :: "real \<Rightarrow> int" where
  "py_int x = (if 0 \<le> x then \<lfloor>x\<rfloor> else \<lceil>x\<rceil>)"

text \<open>
  A slice bound \<open>i\<close> on a sequence of length \<open>n\<close>: a negative bound counts from the
  end, and every bound is clamped to \<open>0..n\<close>. The bound \<open>-0\<close> is the integer \<open>0\<close>
  and therefore the start of the sequence.
\<close>

definition slice_index :: "int \<Rightarrow> nat \<Rightarrow> nat" where
  "slice_index i n = (if i < 0 then nat (max (i + int n) 0) else min (nat i) n)"

text \<open>\<open>xs[a:b]\<close>, for lists, numpy axes and \<open>DataFrame.iloc\<close> rows alike.\<close>

definition py_slice :: "int \<Rightarrow> int \<Rightarrow> 'a list \<Rightarrow> 'a list" where
  "py_slice a b xs =
     (let lo = slice_index a (length xs); hi = slice_index b (length xs)
      in take (hi - lo) (drop lo xs))"

text \<open>\<open>xs[::k]\<close> for a positive step \<open>k\<close>: the elements at positions \<open>0, k, 2k, ...\<close>.\<close>

fun py_stride :: "nat \<Rightarrow> 'a list \<Rightarrow> 'a list" where
  "py_stride k [] = []"
| "py_stride k (x # xs) = x # py_stride k (drop (k - 1) xs)"

text \<open>
  A numpy array divided by a Python integer: division by zero does not raise, it
  produces \<open>nan\<close> or an infinity (with a warning); \<open>None\<close> stands for such a value.
\<close>

definition np_div :: "real \<Rightarrow> int \<Rightarrow> real option" where
  "np_div x d = (if d = 0 then None else Some (x / real_of_int d))"

text \<open>A Python float divided by a Python integer raises on a zero divisor.\<close>

definition py_truediv :: "real \<Rightarrow> int \<Rightarrow> py_error + real" where
  "py_truediv x d = (if d = 0 then Inl ZeroDivisionError else Inr (x / real_of_int d))"

text \<open>
  An image is a list of rows, each a list of pixels; a motion field is a list of
  channels, each such a grid. \<open>has_shape2 h w\<close> says that a grid is \<open>h\<close> by \<open>w\<close>.
\<close>

definition has_shape2 :: "nat \<Rightarrow> nat \<Rightarrow> 'a list list \<Rightarrow> bool" where
  "has_shape2 h w img = (length img = h \<and> list_all (\<lambda>row. length row = w) img)"

definition has_shape3 :: "nat \<Rightarrow> nat \<Rightarrow> nat \<Rightarrow> 'a list list list \<Rightarrow> bool" where
  "has_shape3 c h w fld = (length fld = c \<and> list_all (has_shape2 h w) fld)"

section \<open>\<open>Warper\<close>\<close>

text \<open>
  The attributes \<open>add_tx\<close> and \<open>add_ty\<close> exist only once assigned, hence the
  options; every other attribute is assigned on each path that reaches the end of
  \<open>__init__\<close>. An entry of \<open>theta\<close> is \<open>None\<close> where numpy stores \<open>nan\<close> or an
  infinity.
\<close>

record warper =
  add_tx :: "bool option"
  add_ty :: "bool option"
  Warper_H :: int
  Warper_W :: int
  H_off :: int
  W_off :: int
  mat :: "real list list"
  theta :: "real option list"

text \<open>
  The values \<open>__init__\<close> takes from numpy's generator, in the order of the calls:
  \<open>rand(1)\<close> (its single entry), \<open>randint(0, 5)\<close>, and the three \<open>rand()\<close> of the
  general branch.
\<close>

record draws =
  rand_tx :: real
  randint_branch :: int
  rand_rotate :: real
  rand_scale :: real
  rand_shift :: real

text \<open>
  \<open>cv2.getRotationMatrix2D(center, angle, scale)\<close>, as OpenCV documents it: the angle
  is in degrees, and the matrix rotates about \<open>center\<close>.
\<close>

definition getRotationMatrix2D :: "int \<times> int \<Rightarrow> real \<Rightarrow> real \<Rightarrow> real list list" where
  "getRotationMatrix2D center angle scale =
     (let cx = real_of_int (fst center); cy = real_of_int (snd center);
          a = scale * cos (angle * pi / 180);
          b = scale * sin (angle * pi / 180)
      in [[a, b, (1 - a) * cx - b * cy],
          [- b, a, b * cx + (1 - a) * cy]])"

text \<open>\<open>m[i, j] = v\<close> and \<open>m[i, j] += v\<close> on a matrix that has the entry.\<close>

definition mat_set :: "nat \<Rightarrow> nat \<Rightarrow> real \<Rightarrow> real list list \<Rightarrow> real list list" where
  "mat_set i j v m = m[i := (m ! i)[j := v]]"

definition mat_add :: "nat \<Rightarrow> nat \<Rightarrow> real \<Rightarrow> real list list \<Rightarrow> real list list" where
  "mat_add i j v m = mat_set i j (m ! i ! j + v) m"


text \<open>The draw of line 29: \<open>tx = (2 * rand(1) - 1) * 0.1 * W\<close>.\<close>

definition draw_tx :: "draws \<Rightarrow> int \<Rightarrow> real" where
  "draw_tx d W = (2 * rand_tx d - 1) * (1 / 10) * real_of_int W"

text \<open>
  Line 30: the identity branch is taken when \<open>randint(0, 5)\<close> returns 4.
  Lines 29 to 41: the matrix and \<open>theta\<close> of the branch that \<open>randint(0, 5)\<close> selects.
  In the general branch \<open>shift_value\<close> is a Python float, so \<open>shift_value / H\<close> raises
  for \<open>H = 0\<close>; \<open>tx\<close> is a numpy array, so \<open>tx / W\<close> does not.
\<close>

definition identity_branch :: "draws \<Rightarrow> bool" where
  "identity_branch d = (randint_branch d = 4)"

definition Warper_transform :: "int \<Rightarrow> int \<Rightarrow> draws \<Rightarrow> py_error + real list list \<times> real option list" where
  "Warper_transform H W d =
     (let tx = draw_tx d W in
      if identity_branch d then
        Inr ([[1, 0, tx], [0, 1, 0]], [Some 0, Some 1, Some 0, np_div tx W])
      else
        let rotate_value = (rand_rotate d - 1 / 2) * 2 * (3 / 4);
            scale_value = 1 + (rand_scale d - 1 / 2) * 2 * (15 / 1000);
            shift_value = (rand_shift d - 1 / 2) * 2 * 10;
            m = getRotationMatrix2D (W div 2, H div 2) rotate_value scale_value;
            m = mat_add 1 2 shift_value m;
            m = mat_add 0 2 tx m
        in case py_truediv shift_value H of
             Inl e \<Rightarrow> Inl e
           | Inr sh \<Rightarrow> Inr (m, [Some rotate_value, Some scale_value, Some sh, np_div tx W]))"

text \<open>
  Lines 24 to 45 of \<open>Warper.__init__\<close>, after the tag has assigned \<open>add_tx\<close> or
  \<open>add_ty\<close>. Line 43 reads \<open>add_tx\<close>: reading an attribute that was never assigned
  raises \<open>AttributeError\<close>. The matrix of the identity branch is a \<open>float32\<close> array;
  the rounding of its entries is not modelled.
\<close>

definition Warper_body ::
  "bool option \<Rightarrow> bool option \<Rightarrow> int \<Rightarrow> int \<Rightarrow> real \<Rightarrow> draws \<Rightarrow> py_error + warper" where
  "Warper_body atx aty H W crop d =
     (let h_off = py_int (real_of_int H * crop) div 2;
          w_off = py_int (real_of_int W * crop) div 2
      in case Warper_transform H W d of
           Inl e \<Rightarrow> Inl e
         | Inr (m, th) \<Rightarrow>
             (case atx of
                None \<Rightarrow> Inl (AttributeError ''add_tx'')
              | Some keep \<Rightarrow>
                  Inr \<lparr> add_tx = atx, add_ty = aty, Warper_H = H, Warper_W = W,
                        H_off = h_off, W_off = w_off,
                        mat = (if \<not> keep then mat_set 0 2 0 m else m),
                        theta = (if \<not> keep then take 3 th else th) \<rparr>))"

text \<open>
  \<open>Warper.__init__\<close>: the tag \<open>affine_simple_4\<close> assigns \<open>add_tx = True\<close>, the tag
  \<open>affine_simple\<close> assigns \<open>add_ty = False\<close>, any other tag raises.
\<close>

definition Warper_init :: "int \<Rightarrow> int \<Rightarrow> string \<Rightarrow> real \<Rightarrow> draws \<Rightarrow> py_error + warper" where
  "Warper_init H W geometric_model crop d =
     (if geometric_model = ''affine_simple_4'' then Warper_body (Some True) None H W crop d
      else if geometric_model = ''affine_simple'' then Warper_body None (Some False) H W crop d
      else Inl NotImplementedError)"

text \<open>\<open>Warper.crop\<close>: \<open>img[H_off:-H_off, W_off:-W_off]\<close>.\<close>

definition Warper_crop :: "warper \<Rightarrow> 'a list list \<Rightarrow> 'a list list" where
  "Warper_crop wp img =
     map (py_slice (W_off wp) (- W_off wp)) (py_slice (H_off wp) (- H_off wp) img)"

text \<open>
  \<open>Warper.warp\<close>; \<open>cv2.warpAffine(img, mat, dsize = (W, H))\<close> is the parameter
  \<open>warpAffine\<close>.
\<close>

definition Warper_warp ::
  "(('a list list) \<Rightarrow> real list list \<Rightarrow> int \<times> int \<Rightarrow> 'a list list) \<Rightarrow>
   warper \<Rightarrow> 'a list list \<Rightarrow> 'a list list \<Rightarrow> 'a list list \<times> 'a list list" where
  "Warper_warp warpAffine wp img_L img_R =
     (Warper_crop wp img_L,
      Warper_crop wp (warpAffine img_R (mat wp) (Warper_W wp, Warper_H wp)))"

definition get_theta :: "warper \<Rightarrow> real option list" where
  "get_theta wp = theta wp"

section \<open>\<open>MEHandler\<close>\<close>

text \<open>
  The motion estimator \<open>pythonME.me.ME\<close> is external. Its constructor is the
  parameter \<open>ME\<close> (width, height and loss metric to the state of a fresh handle), its
  method \<open>EstimateME\<close> the parameter \<open>EstimateME\<close>: from the state of the handle
  and the two images to the new state and the motion field returned.
\<close>

record 's me_handler =
  ME_W :: int
  ME_H :: int
  loss_metric :: string
  runs_to_warm_up :: int
  L2R_ME :: 's
  R2L_ME :: 's

definition MEHandler_init ::
  "(int \<Rightarrow> int \<Rightarrow> string \<Rightarrow> 's) \<Rightarrow> int \<Rightarrow> int \<Rightarrow> string \<Rightarrow> int \<Rightarrow> 's me_handler" where
  "MEHandler_init ME H W lm runs =
     \<lparr> ME_W = W, ME_H = H, loss_metric = lm, runs_to_warm_up = runs,
       L2R_ME = ME W H lm, R2L_ME = ME W H lm \<rparr>"

text \<open>
  The loop of \<open>warmed_up_me\<close>: \<open>k\<close> calls whose results are dropped; \<open>range(n)\<close> is
  empty for \<open>n \<le> 0\<close>.
\<close>

fun warm_up_loop :: "('s \<Rightarrow> 'i \<Rightarrow> 'i \<Rightarrow> 's \<times> 'r) \<Rightarrow> nat \<Rightarrow> 's \<Rightarrow> 'i \<Rightarrow> 'i \<Rightarrow> 's" where
  "warm_up_loop EstimateME 0 h cur_img ref_img = h"
| "warm_up_loop EstimateME (Suc k) h cur_img ref_img =
     warm_up_loop EstimateME k (fst (EstimateME h cur_img ref_img)) cur_img ref_img"

text \<open>
  \<open>warmed_up_me\<close>; \<open>runs\<close> is \<open>self.runs_to_warm_up\<close>, the one attribute the method
  reads, and \<open>h\<close> the state of \<open>MEInstance\<close>, returned updated.
\<close>

definition warmed_up_me ::
  "('s \<Rightarrow> 'i \<Rightarrow> 'i \<Rightarrow> 's \<times> 'r) \<Rightarrow> int \<Rightarrow> 's \<Rightarrow> 'i \<Rightarrow> 'i \<Rightarrow> 's \<times> 'r" where
  "warmed_up_me EstimateME runs h cur_img ref_img =
     EstimateME (warm_up_loop EstimateME (nat (runs - 1)) h cur_img ref_img) cur_img ref_img"

text \<open>\<open>fld[..., ::4, ::4]\<close> on a field of channels, rows and columns.\<close>

definition subsample4 :: "'v list list list \<Rightarrow> 'v list list list" where
  "subsample4 fld = map (\<lambda>ch. map (py_stride 4) (py_stride 4 ch)) fld"

text \<open>
  \<open>calculate_disparity\<close>: the handler is returned with the two handles as the calls
  left them.
\<close>

definition calculate_disparity ::
  "('s \<Rightarrow> 'i \<Rightarrow> 'i \<Rightarrow> 's \<times> 'v list list list) \<Rightarrow> 's me_handler \<Rightarrow> 'i \<Rightarrow> 'i \<Rightarrow>
   's me_handler \<times> 'v list list list \<times> 'v list list list" where
  "calculate_disparity EstimateME self img_l img_r =
     (let (hl, l2r) = warmed_up_me EstimateME (runs_to_warm_up self) (L2R_ME self) img_l img_r;
          (hr, r2l) = warmed_up_me EstimateME (runs_to_warm_up self) (R2L_ME self) img_r img_l
      in (self\<lparr>L2R_ME := hl, R2L_ME := hr\<rparr>, (subsample4 l2r, subsample4 r2l)))"

text \<open>
  \<open>pickle_ME\<close>, the reducer registered with \<open>copyreg\<close>, returns the class and the
  arguments of its constructor; unpickling calls the class on them.
\<close>

definition pickle_ME :: "'s me_handler \<Rightarrow> int \<times> int \<times> string \<times> int" where
  "pickle_ME me = (ME_H me, ME_W me, loss_metric me, runs_to_warm_up me)"

definition unpickle_ME ::
  "(int \<Rightarrow> int \<Rightarrow> string \<Rightarrow> 's) \<Rightarrow> int \<times> int \<times> string \<times> int \<Rightarrow> 's me_handler" where
  "unpickle_ME ME args = (case args of (h, w, lm, runs) \<Rightarrow> MEHandler_init ME h w lm runs)"


section \<open>\<open>SynthDatasetME\<close>\<close>

text \<open>
  The manifest that \<open>pd.read_csv\<close> returns is a list of rows; a row is the image file
  name of its first column and the values of the other columns.
\<close>

type_synonym row = "string \<times> string list"

record 's synth_dataset_me =
  train_data :: "row list"
  dataset_size :: int
  img_names :: "string list"
  dataset_image_path :: string
  geometric_model :: string
  crop :: real
  me_handler :: "'s me_handler"

definition SynthDatasetME_init ::
  "(int \<Rightarrow> int \<Rightarrow> string \<Rightarrow> 's) \<Rightarrow> row list \<Rightarrow> string \<Rightarrow> int \<Rightarrow> int \<Rightarrow> real \<Rightarrow> string \<Rightarrow> int \<Rightarrow>
   's synth_dataset_me" where
  "SynthDatasetME_init ME csv image_path h w crp gm dsize =
     (let td = (if dsize \<noteq> 0
                then py_slice 0 (min dsize (int (length csv))) csv
                else csv)
      in \<lparr> train_data = td, dataset_size = dsize, img_names = map fst td,
            dataset_image_path = image_path, geometric_model = gm, crop = crp,
            me_handler =
              MEHandler_init ME (py_int (real_of_int h - real_of_int h * crp))
                (py_int (real_of_int w - real_of_int w * crp)) ''colorindependent'' 2 \<rparr>)"

definition SynthDatasetME_len :: "'s synth_dataset_me \<Rightarrow> int" where
  "SynthDatasetME_len ds = int (length (train_data ds))"

text \<open>
  \<open>self.img_names[idx]\<close>, the lookup \<open>__getitem__\<close> starts with. \<open>img_names\<close> is a
  pandas Series over the labels \<open>0, 1, ...\<close>; an integer that is not a label raises
  \<open>KeyError\<close>.
\<close>

definition img_name_at :: "'s synth_dataset_me \<Rightarrow> int \<Rightarrow> py_error + string" where
  "img_name_at ds idx =
     (if 0 \<le> idx \<and> idx < int (length (img_names ds))
      then Inr (img_names ds ! nat idx)
      else Inl (KeyError idx))"

section \<open>Concrete draws and mock estimators\<close>

text \<open>Draws that select the identity branch, with \<open>rand(1) = 0.75\<close>.\<close>

definition identity_draws :: draws where
  "identity_draws =
     \<lparr> rand_tx = 3 / 4, randint_branch = 4, rand_rotate = 1 / 2, rand_scale = 1 / 2,
       rand_shift = 1 / 2 \<rparr>"

text \<open>
  A wrapper of an estimator that also records every pair it is invoked on, in the
  order of the invocations.
\<close>

definition recording ::
  "('s \<Rightarrow> 'i \<Rightarrow> 'i \<Rightarrow> 's \<times> 'r) \<Rightarrow> 's \<times> ('i \<times> 'i) list \<Rightarrow> 'i \<Rightarrow> 'i \<Rightarrow> ('s \<times> ('i \<times> 'i) list) \<times> 'r" where
  "recording EstimateME h cur_img ref_img =
     ((fst (EstimateME (fst h) cur_img ref_img), snd h @ [(cur_img, ref_img)]),
      snd (EstimateME (fst h) cur_img ref_img))"

text \<open>A mock estimator whose output is the index of the invocation.\<close>

definition counting :: "nat \<Rightarrow> 'i \<Rightarrow> 'i \<Rightarrow> nat \<times> nat" where
  "counting k cur_img ref_img = (Suc k, Suc k)"

text \<open>
  A mock whose field has the current image as its first channel and the reference image
  as its second.
\<close>

definition stacking :: "nat \<Rightarrow> 'p list list \<Rightarrow> 'p list list \<Rightarrow> nat \<times> 'p list list list" where
  "stacking k cur_img ref_img = (Suc k, [cur_img, ref_img])"

text \<open>
  A mock that needs warming up: its state is the pair of its last invocation, and its
  field is the settled one only when it is invoked on that pair again.
\<close>

definition settling ::
  "('i \<times> 'i) option \<Rightarrow> 'i \<Rightarrow> 'i \<Rightarrow> ('i \<times> 'i) option \<times> nat list list list" where
  "settling h cur_img ref_img =
     (Some (cur_img, ref_img),
      if h = Some (cur_img, ref_img) then [[[1]], [[1]]] else [[[0]], [[0]]])"

section \<open>Facts about slices\<close>

lemma py_slice_prefix_pos:
  "0 \<le> b \<Longrightarrow> py_slice 0 b xs = take (nat b) xs"
  by (simp add: py_slice_def slice_index_def min_def)

lemma py_slice_prefix_neg:
  "b < 0 \<Longrightarrow> py_slice 0 b xs = take (nat (int (length xs) + b)) xs"
  by (simp add: py_slice_def slice_index_def max_def add.commute)

lemma py_slice_zero_offset: "py_slice 0 (- 0) xs = []"
  by (simp add: py_slice_def slice_index_def)

lemma py_slice_symmetric:
  assumes "0 < k"
  shows "py_slice k (- k) xs = take (length xs - 2 * nat k) (drop (nat k) xs)"
proof (cases "nat k \<le> length xs")
  case True
  with assms have "slice_index k (length xs) = nat k"
    and "slice_index (- k) (length xs) = length xs - nat k"
    by (auto simp: slice_index_def max_def)
  then show ?thesis
    by (simp add: py_slice_def Let_def mult_2)
next
  case False
  with assms show ?thesis
    by (simp add: py_slice_def Let_def slice_index_def)
qed

lemma length_py_slice_symmetric:
  "0 < k \<Longrightarrow> length (py_slice k (- k) xs) = length xs - 2 * nat k"
  by (simp add: py_slice_symmetric)

lemma nth_py_slice_symmetric:
  "0 < k \<Longrightarrow> i < length xs - 2 * nat k \<Longrightarrow> py_slice k (- k) xs ! i = xs ! (nat k + i)"
  by (simp add: py_slice_symmetric)

section \<open>The construction of a warper\<close>

lemma Warper_transform_identity:
  "identity_branch d \<Longrightarrow>
   Warper_transform H W d =
     Inr ([[1, 0, draw_tx d W], [0, 1, 0]], [Some 0, Some 1, Some 0, np_div (draw_tx d W) W])"
  by (simp add: Warper_transform_def Let_def)

lemma Warper_transform_theta_length:
  "Warper_transform H W d = Inr (m, th) \<Longrightarrow> length th = 4"
  by (auto simp: Warper_transform_def Let_def py_truediv_def split: if_splits)

lemma Warper_transform_succeeds:
  "H \<noteq> 0 \<or> identity_branch d \<Longrightarrow> \<exists>m th. Warper_transform H W d = Inr (m, th)"
  by (auto simp: Warper_transform_def Let_def py_truediv_def)

lemma Warper_body_no_add_tx:
  "isl (Warper_body None aty H W crp d)"
  by (simp add: Warper_body_def split: sum.splits prod.splits)

lemma Warper_body_no_add_tx_error:
  "H \<noteq> 0 \<or> identity_branch d \<Longrightarrow> Warper_body None aty H W crp d = Inl (AttributeError ''add_tx'')"
  using Warper_transform_succeeds [of H d W]
  by (auto simp: Warper_body_def)

lemma Warper_body_add_tx:
  "Warper_body (Some True) aty H W crp d =
     (case Warper_transform H W d of
        Inl e \<Rightarrow> Inl e
      | Inr (m, th) \<Rightarrow>
          Inr \<lparr> add_tx = Some True, add_ty = aty, Warper_H = H, Warper_W = W,
                H_off = py_int (real_of_int H * crp) div 2,
                W_off = py_int (real_of_int W * crp) div 2,
                mat = m, theta = th \<rparr>)"
  by (simp add: Warper_body_def split: sum.splits prod.splits)

lemma Warper_init_Inr:
  assumes "Warper_init H W gm crp d = Inr wp"
  shows "gm = ''affine_simple_4''"
    and "\<exists>m th. Warper_transform H W d = Inr (m, th) \<and>
          wp = \<lparr> add_tx = Some True, add_ty = None, Warper_H = H, Warper_W = W,
                H_off = py_int (real_of_int H * crp) div 2,
                W_off = py_int (real_of_int W * crp) div 2,
                mat = m, theta = th \<rparr>"
proof -
  have n: "\<not> isl (Warper_init H W gm crp d)" using assms by simp
  show gm: "gm = ''affine_simple_4''"
  proof (rule ccontr)
    assume "gm \<noteq> ''affine_simple_4''"
    then have "isl (Warper_init H W gm crp d)"
      by (simp add: Warper_init_def Warper_body_no_add_tx)
    with n show False by simp
  qed
  from assms gm have "Warper_body (Some True) None H W crp d = Inr wp"
    by (simp add: Warper_init_def)
  then show "\<exists>m th. Warper_transform H W d = Inr (m, th) \<and>
          wp = \<lparr> add_tx = Some True, add_ty = None, Warper_H = H, Warper_W = W,
                H_off = py_int (real_of_int H * crp) div 2,
                W_off = py_int (real_of_int W * crp) div 2,
                mat = m, theta = th \<rparr>"
    by (auto simp: Warper_body_add_tx split: sum.splits prod.splits)
qed

text \<open>
  Claim C1. The claim has the tag \<open>affine_simple\<close> construct a warper with a
  \<open>theta\<close> of 3 components. In the code no construction with that tag returns: the tag
  assigns \<open>add_ty\<close>, line 43 reads \<open>add_tx\<close>, and for a 256 by 256 image with crop
  0.2 the exception is \<open>AttributeError\<close> whatever the generator returns.
\<close>

theorem Warper_init_affine_simple_raises:
  "isl (Warper_init H W ''affine_simple'' crp d) \<and>
   Warper_init 256 256 ''affine_simple'' (1 / 5) d = Inl (AttributeError ''add_tx'')"
  by (simp add: Warper_init_def Warper_body_no_add_tx Warper_body_no_add_tx_error)

text \<open>The tag \<open>affine_simple_4\<close>: a warper that is constructed has a \<open>theta\<close> of 4 components.\<close>

lemma Warper_init_affine_simple_4_theta:
  "Warper_init H W ''affine_simple_4'' crp d = Inr wp \<Longrightarrow> length (theta wp) = 4"
  using Warper_init_Inr(2) [of H W "''affine_simple_4''" crp d wp]
  by (auto dest: Warper_transform_theta_length)



lemma Warper_init_identity_draws:
  "Warper_init H W ''affine_simple_4'' crp identity_draws =
     Inr \<lparr> add_tx = Some True, add_ty = None, Warper_H = H, Warper_W = W,
                H_off = py_int (real_of_int H * crp) div 2,
                W_off = py_int (real_of_int W * crp) div 2,
                mat = [[1, 0, real_of_int W / 20], [0, 1, 0]],
                theta = [Some 0, Some 1, Some 0, np_div (real_of_int W / 20) W] \<rparr>"
  by (simp add: Warper_init_def Warper_body_add_tx Warper_transform_identity identity_branch_def
      identity_draws_def draw_tx_def)


section \<open>The crop\<close>

lemma Warper_crop_positive_offsets:
  assumes "has_shape2 h w img" and "0 < H_off wp" and "0 < W_off wp"
  shows "has_shape2 (h - 2 * nat (H_off wp)) (w - 2 * nat (W_off wp)) (Warper_crop wp img)"
    and "i < h - 2 * nat (H_off wp) \<Longrightarrow> j < w - 2 * nat (W_off wp) \<Longrightarrow>
         Warper_crop wp img ! i ! j = img ! (nat (H_off wp) + i) ! (nat (W_off wp) + j)"
proof -
  from assms(1) have len: "length img = h" and rows: "\<And>row. row \<in> set img \<Longrightarrow> length row = w"
    by (simp_all add: has_shape2_def list_all_iff)
  have sub: "set (py_slice (H_off wp) (- H_off wp) img) \<subseteq> set img"
    using assms(2) by (auto simp: py_slice_symmetric dest: in_set_takeD in_set_dropD)
  show "has_shape2 (h - 2 * nat (H_off wp)) (w - 2 * nat (W_off wp)) (Warper_crop wp img)"
    using assms(2,3) sub rows
    by (auto simp: has_shape2_def Warper_crop_def length_py_slice_symmetric len list_all_iff)
  assume i: "i < h - 2 * nat (H_off wp)" and j: "j < w - 2 * nat (W_off wp)"
  from i have "nat (H_off wp) + i < length img" by (simp add: len)
  then have "length (img ! (nat (H_off wp) + i)) = w" by (simp add: rows)
  with i j assms(2,3) show "Warper_crop wp img ! i ! j = img ! (nat (H_off wp) + i) ! (nat (W_off wp) + j)"
    by (simp add: Warper_crop_def length_py_slice_symmetric len nth_py_slice_symmetric)
qed

text \<open>
  Claim C7. The claim has a zero offset leave its axis uncropped. In the code the slice
  \<open>img[0:-0]\<close> is \<open>img[0:0]\<close>: with \<open>H_off = 0\<close> no row is left, and with
  \<open>W_off = 0\<close> every row that is left is empty. No exception is raised.
\<close>

theorem Warper_crop_zero_offset:
  "(H_off wp = 0 \<longrightarrow> Warper_crop wp img = []) \<and>
   (W_off wp = 0 \<longrightarrow> list_all (\<lambda>row. row = []) (Warper_crop wp img))"
  by (simp add: Warper_crop_def py_slice_zero_offset [simplified] list_all_iff)

text \<open>A 16 by 16 image and crop 0: both offsets are 0 and the crop has no rows.\<close>

theorem Warper_crop_zero_offset_witness:
  "(case Warper_init 16 16 ''affine_simple_4'' 0 identity_draws of
      Inl e \<Rightarrow> False
    | Inr wp \<Rightarrow> H_off wp = 0 \<and> W_off wp = 0 \<and>
               has_shape2 16 16 (replicate 16 (replicate 16 (0 :: nat))) \<and>
               Warper_crop wp (replicate 16 (replicate 16 (0 :: nat))) = [])"
  using Warper_crop_zero_offset [of
      "\<lparr> add_tx = Some True, add_ty = None, Warper_H = 16, Warper_W = 16, H_off = 0, W_off = 0,
         mat = [[1, 0, 4 / 5], [0, 1, 0]], theta = [Some 0, Some 1, Some 0, Some (1 / 20)] \<rparr>"
      "replicate 16 (replicate 16 (0 :: nat))"]
  by (simp add: Warper_init_identity_draws py_int_def np_div_def has_shape2_def list_all_iff)

text \<open>
  Claim C6. The offsets are as the claim computes them, but the crop does not always
  remove that many rows and columns from each side: for a 16 by 16 image and crop 0.1
  the offsets are \<open>\<lfloor>1.6\<rfloor> div 2 = 0\<close>, and the crop of the image has no rows at all
  where the claim leaves it 16 by 16.
\<close>

theorem Warper_crop_small_offset:
  "(case Warper_init 16 16 ''affine_simple_4'' (1 / 10) identity_draws of
      Inl e \<Rightarrow> False
    | Inr wp \<Rightarrow> H_off wp = \<lfloor>16 * (1 / 10 :: real)\<rfloor> div 2 \<and> H_off wp = 0 \<and>
               W_off wp = \<lfloor>16 * (1 / 10 :: real)\<rfloor> div 2 \<and> W_off wp = 0 \<and>
               has_shape2 16 16 (replicate 16 (replicate 16 (0 :: nat))) \<and>
               Warper_crop wp (replicate 16 (replicate 16 (0 :: nat))) = [])"
  by (simp add: Warper_init_identity_draws py_int_def np_div_def has_shape2_def list_all_iff
      Warper_crop_def py_slice_def slice_index_def)

text \<open>
  What holds of the offsets and of the crop: the offsets are \<open>int(H * crop) // 2\<close> and
  \<open>int(W * crop) // 2\<close>, \<open>int\<close> being the floor where the product is not negative; with
  positive offsets the crop removes that many rows and columns from each side; and a
  256 by 256 image with crop 0.2 has offsets 25 and a crop of 206 by 206.
\<close>

lemma Warper_offsets:
  assumes "Warper_init H W gm crp d = Inr wp"
  shows "H_off wp = py_int (real_of_int H * crp) div 2"
    and "W_off wp = py_int (real_of_int W * crp) div 2"
    and "0 \<le> H \<Longrightarrow> 0 \<le> crp \<Longrightarrow> H_off wp = \<lfloor>real_of_int H * crp\<rfloor> div 2"
    and "0 \<le> W \<Longrightarrow> 0 \<le> crp \<Longrightarrow> W_off wp = \<lfloor>real_of_int W * crp\<rfloor> div 2"
  using Warper_init_Inr(2) [OF assms] by (auto simp: py_int_def)

lemma Warper_crop_256:
  assumes "Warper_init 256 256 gm (1 / 5) d = Inr wp" and "has_shape2 256 256 img"
  shows "H_off wp = 25" and "W_off wp = 25" and "has_shape2 206 206 (Warper_crop wp img)"
proof -
  show h: "H_off wp = 25" and w: "W_off wp = 25"
    using Warper_offsets(1,2) [OF assms(1)] by (simp_all add: py_int_def)
  from Warper_crop_positive_offsets(1) [OF assms(2), of wp] h w
  show "has_shape2 206 206 (Warper_crop wp img)" by simp
qed

section \<open>The warm-up protocol\<close>

lemma warm_up_loop_funpow:
  "warm_up_loop E k h c r = ((\<lambda>s. fst (E s c r)) ^^ k) h"
  by (induction k arbitrary: h) (simp_all add: funpow_Suc_right del: funpow.simps)

lemma warm_up_loop_recording:
  "warm_up_loop (recording E) k (s, calls) c r =
     (warm_up_loop E k s c r, calls @ replicate k (c, r))"
  by (induction k arbitrary: s calls) (simp_all add: recording_def replicate_app_Cons_same)

text \<open>
  Claim C3. For a warm-up count \<open>n \<ge> 1\<close>, one call of \<open>warmed_up_me\<close> invokes the
  estimator exactly \<open>n\<close> times, each time on the same pair \<open>(c, r)\<close>: a recording
  estimator has \<open>n\<close> new entries \<open>(c, r)\<close> and nothing else, the handle has advanced
  \<open>n\<close> steps, and the value returned is the result of the last, the \<open>n\<close>-th,
  invocation.
\<close>

theorem warmed_up_me_invocations:
  assumes "1 \<le> n"
  shows "warmed_up_me (recording E) n (s, calls) c r =
     ((((\<lambda>s. fst (E s c r)) ^^ nat n) s, calls @ replicate (nat n) (c, r)),
      snd (E (((\<lambda>s. fst (E s c r)) ^^ (nat n - 1)) s) c r))"
proof -
  from assms obtain k where k: "nat n = Suc k" "nat (n - 1) = k"
    by (metis Suc_nat_eq_nat_zadd1 add.commute diff_add_cancel diff_ge_0_iff_ge)
  have "warmed_up_me (recording E) n (s, calls) c r =
        recording E (warm_up_loop E k s c r, calls @ replicate k (c, r)) c r"
    by (simp add: warmed_up_me_def k warm_up_loop_recording)
  also have "\<dots> = ((fst (E (warm_up_loop E k s c r) c r), calls @ replicate (Suc k) (c, r)),
                    snd (E (warm_up_loop E k s c r) c r))"
    by (simp add: recording_def replicate_append_same)
  finally show ?thesis
    by (simp add: k warm_up_loop_funpow)
qed

text \<open>
  With the mock whose output is the index of the invocation: a count of 1 gives one
  invocation and returns 1, a count of 3 gives three and returns 3.
\<close>

theorem warmed_up_me_invocations_witness:
  "warmed_up_me (recording counting) 1 (0, []) ''L'' ''R'' = ((1, [(''L'', ''R'')]), 1) \<and>
   warmed_up_me (recording counting) 3 (0, []) ''L'' ''R'' =
     ((3, [(''L'', ''R''), (''L'', ''R''), (''L'', ''R'')]), 3)"
  using warmed_up_me_invocations [of 1 counting 0 "[]" "''L''" "''R''"]
        warmed_up_me_invocations [of 3 counting 0 "[]" "''L''" "''R''"]
  by (simp add: counting_def eval_nat_numeral)

section \<open>The disparity fields\<close>

lemma length_py_stride:
  "0 < k \<Longrightarrow> length (py_stride k xs) = (length xs + k - 1) div k"
proof (induction k xs rule: py_stride.induct)
  case (1 k)
  then show ?case by simp
next
  case (2 k x xs)
  show ?case
  proof (cases "k - 1 \<le> length xs")
    case True
    with 2 have "length (py_stride k (drop (k - 1) xs)) = length xs div k"
      by simp
    moreover have "(length (x # xs) + k - 1) div k = Suc (length xs div k)"
      using 2(2) by simp
    ultimately show ?thesis by simp
  next
    case False
    with 2(2) have "length xs div k = 0" by simp
    moreover have "(length (x # xs) + k - 1) div k = Suc (length xs div k)"
      using 2(2) by simp
    ultimately show ?thesis using False by simp
  qed
qed

lemma nth_py_stride:
  "0 < k \<Longrightarrow> i < length (py_stride k xs) \<Longrightarrow> py_stride k xs ! i = xs ! (k * i)"
proof (induction k xs arbitrary: i rule: py_stride.induct)
  case (1 k)
  then show ?case by simp
next
  case (2 k x xs)
  show ?case
  proof (cases i)
    case 0
    then show ?thesis by simp
  next
    case (Suc i')
    with 2(3) have i': "i' < length (py_stride k (drop (k - 1) xs))" by simp
    then have "drop (k - 1) xs \<noteq> []" by auto
    then have le: "k - 1 \<le> length xs" by simp
    from 2(1) [OF 2(2) i'] have "py_stride k (drop (k - 1) xs) ! i' = drop (k - 1) xs ! (k * i')" .
    also have "\<dots> = xs ! (k - 1 + k * i')" using le by simp
    also have "\<dots> = (x # xs) ! (k * Suc i')" using 2(2) by (cases k) simp_all
    finally show ?thesis using Suc by simp
  qed
qed

lemma py_stride4_shape:
  "4 dvd length xs \<Longrightarrow> length (py_stride 4 xs) = length xs div 4"
  by (auto simp: length_py_stride)

lemma has_shape2_stride:
  assumes "has_shape2 h w g" and "4 dvd h" and "4 dvd w"
  shows "has_shape2 (h div 4) (w div 4) (map (py_stride 4) (py_stride 4 g))"
    and "i < h div 4 \<Longrightarrow> j < w div 4 \<Longrightarrow>
         map (py_stride 4) (py_stride 4 g) ! i ! j = g ! (4 * i) ! (4 * j)"
proof -
  from assms(1) have len: "length g = h" and rows: "\<And>k. k < h \<Longrightarrow> length (g ! k) = w"
    by (simp_all add: has_shape2_def list_all_length)
  have l4: "length (py_stride 4 g) = h div 4"
    using assms(2) len by (simp add: py_stride4_shape)
  have row: "py_stride 4 g ! k = g ! (4 * k)" if "k < h div 4" for k
    using that l4 by (simp add: nth_py_stride)
  have in_range: "4 * k < h" if "k < h div 4" for k
    using that assms(2) by auto
  have rlen: "length (py_stride 4 (py_stride 4 g ! k)) = w div 4" if "k < h div 4" for k
    using that assms(3) by (simp add: row rows in_range py_stride4_shape)
  show "has_shape2 (h div 4) (w div 4) (map (py_stride 4) (py_stride 4 g))"
    by (simp add: has_shape2_def l4 list_all_length rlen)
  assume i: "i < h div 4" and j: "j < w div 4"
  from i have "map (py_stride 4) (py_stride 4 g) ! i = py_stride 4 (g ! (4 * i))"
    by (simp add: l4 row)
  moreover from i j assms(3) have "j < length (py_stride 4 (g ! (4 * i)))"
    by (simp add: rows in_range py_stride4_shape)
  ultimately show "map (py_stride 4) (py_stride 4 g) ! i ! j = g ! (4 * i) ! (4 * j)"
    by (simp add: nth_py_stride)
qed

lemma subsample4_shape:
  assumes "has_shape3 c h w fld" and "4 dvd h" and "4 dvd w"
  shows "has_shape3 c (h div 4) (w div 4) (subsample4 fld)"
    and "ch < c \<Longrightarrow> i < h div 4 \<Longrightarrow> j < w div 4 \<Longrightarrow>
         subsample4 fld ! ch ! i ! j = fld ! ch ! (4 * i) ! (4 * j)"
proof -
  from assms(1) have len: "length fld = c" and chs: "\<And>k. k < c \<Longrightarrow> has_shape2 h w (fld ! k)"
    by (simp_all add: has_shape3_def list_all_length)
  show "has_shape3 c (h div 4) (w div 4) (subsample4 fld)"
    using has_shape2_stride(1) [OF chs assms(2,3)]
    by (simp add: has_shape3_def subsample4_def len list_all_length)
  assume "ch < c" "i < h div 4" "j < w div 4"
  then show "subsample4 fld ! ch ! i ! j = fld ! ch ! (4 * i) ! (4 * j)"
    using has_shape2_stride(2) [OF chs assms(2,3)]
    by (simp add: subsample4_def len)
qed

lemma calculate_disparity_eq:
  "calculate_disparity E self img_l img_r =
     (self\<lparr>L2R_ME := fst (warmed_up_me E (runs_to_warm_up self) (L2R_ME self) img_l img_r),
            R2L_ME := fst (warmed_up_me E (runs_to_warm_up self) (R2L_ME self) img_r img_l)\<rparr>,
      subsample4 (snd (warmed_up_me E (runs_to_warm_up self) (L2R_ME self) img_l img_r)),
      subsample4 (snd (warmed_up_me E (runs_to_warm_up self) (R2L_ME self) img_r img_l)))"
  by (simp add: calculate_disparity_def split_beta)

text \<open>
  Claim C4. For two images of \<open>h\<close> by \<open>w\<close> pixels, 16 dividing both, and an estimator
  that returns a field of 2 channels of \<open>h\<close> by \<open>w\<close> for such images:
  \<open>calculate_disparity\<close> runs the warmed-up estimate on the handle \<open>L2R_ME\<close> with the
  left image as current and the right as reference, and on the handle \<open>R2L_ME\<close> with
  the right image as current and the left as reference; it returns the two fields
  subsampled, each of 2 channels of \<open>h div 4\<close> by \<open>w div 4\<close>, whose entry \<open>(i, j)\<close> is
  the entry \<open>(4 i, 4 j)\<close> of the estimator's field.
\<close>

theorem calculate_disparity_fields:
  fixes img_l img_r :: "'p list list"
  assumes "16 dvd h" and "16 dvd w"
    and "has_shape2 h w img_l" and "has_shape2 h w img_r"
    and contract: "\<And>s cur_img ref_img. has_shape2 h w cur_img \<Longrightarrow> has_shape2 h w ref_img \<Longrightarrow>
           has_shape3 2 h w (snd (E s cur_img ref_img))"
  shows "calculate_disparity E self img_l img_r =
           (self\<lparr>L2R_ME := fst (warmed_up_me E (runs_to_warm_up self) (L2R_ME self) img_l img_r),
                  R2L_ME := fst (warmed_up_me E (runs_to_warm_up self) (R2L_ME self) img_r img_l)\<rparr>,
            subsample4 (snd (warmed_up_me E (runs_to_warm_up self) (L2R_ME self) img_l img_r)),
            subsample4 (snd (warmed_up_me E (runs_to_warm_up self) (R2L_ME self) img_r img_l))) \<and>
         has_shape3 2 (h div 4) (w div 4) (fst (snd (calculate_disparity E self img_l img_r))) \<and>
         has_shape3 2 (h div 4) (w div 4) (snd (snd (calculate_disparity E self img_l img_r))) \<and>
         (\<forall>ch i j. ch < 2 \<and> i < h div 4 \<and> j < w div 4 \<longrightarrow>
            fst (snd (calculate_disparity E self img_l img_r)) ! ch ! i ! j =
              snd (warmed_up_me E (runs_to_warm_up self) (L2R_ME self) img_l img_r) ! ch ! (4 * i) ! (4 * j) \<and>
            snd (snd (calculate_disparity E self img_l img_r)) ! ch ! i ! j =
              snd (warmed_up_me E (runs_to_warm_up self) (R2L_ME self) img_r img_l) ! ch ! (4 * i) ! (4 * j))"
proof -
  let ?fwd = "snd (warmed_up_me E (runs_to_warm_up self) (L2R_ME self) img_l img_r)"
  let ?bwd = "snd (warmed_up_me E (runs_to_warm_up self) (R2L_ME self) img_r img_l)"
  from assms(1,2) have d: "4 dvd h" "4 dvd w"
    by (auto elim: dvd_trans [rotated])
  have f: "has_shape3 2 h w ?fwd" and b: "has_shape3 2 h w ?bwd"
    using assms(3,4) by (simp_all add: warmed_up_me_def contract)
  note sf = subsample4_shape [OF f d] and sb = subsample4_shape [OF b d]
  show ?thesis
    using sf sb by (simp add: calculate_disparity_eq)
qed



text \<open>
  Two 16 by 16 images and the mock that stacks current and reference: both fields are
  2 by 4 by 4, the first channel of the forward field is the left image and the first
  channel of the backward field the right one.
\<close>

theorem calculate_disparity_fields_witness:
  "has_shape2 16 16 (replicate 16 (replicate 16 (1 :: nat))) \<and>
   has_shape2 16 16 (replicate 16 (replicate 16 (2 :: nat))) \<and>
   has_shape3 2 4 4 (fst (snd (calculate_disparity stacking
      (MEHandler_init (\<lambda>w h lm. 0) 16 16 ''colorindependent'' 2)
      (replicate 16 (replicate 16 (1 :: nat))) (replicate 16 (replicate 16 2))))) \<and>
   has_shape3 2 4 4 (snd (snd (calculate_disparity stacking
      (MEHandler_init (\<lambda>w h lm. 0) 16 16 ''colorindependent'' 2)
      (replicate 16 (replicate 16 (1 :: nat))) (replicate 16 (replicate 16 2))))) \<and>
   fst (snd (calculate_disparity stacking
      (MEHandler_init (\<lambda>w h lm. 0) 16 16 ''colorindependent'' 2)
      (replicate 16 (replicate 16 (1 :: nat))) (replicate 16 (replicate 16 2)))) ! 0 ! 3 ! 3 = 1 \<and>
   snd (snd (calculate_disparity stacking
      (MEHandler_init (\<lambda>w h lm. 0) 16 16 ''colorindependent'' 2)
      (replicate 16 (replicate 16 (1 :: nat))) (replicate 16 (replicate 16 2)))) ! 0 ! 3 ! 3 = 2"
proof -
  let ?L = "replicate 16 (replicate 16 (1 :: nat))"
  let ?R = "replicate 16 (replicate 16 (2 :: nat))"
  let ?me = "MEHandler_init (\<lambda>w h lm. 0 :: nat) 16 16 ''colorindependent'' 2"
  have d: "(16 :: nat) dvd 16" by simp
  have l: "has_shape2 16 16 ?L" and r: "has_shape2 16 16 ?R"
    by (simp_all add: has_shape2_def list_all_iff)
  have c: "has_shape3 2 16 16 (snd (stacking s cur_img ref_img))"
    if "has_shape2 16 16 cur_img" "has_shape2 16 16 ref_img"
    for s and cur_img ref_img :: "nat list list"
    using that by (simp add: stacking_def has_shape3_def)
  note t = calculate_disparity_fields [where E = stacking and self = ?me, OF d d l r c]
  have f: "snd (warmed_up_me stacking (runs_to_warm_up ?me) (L2R_ME ?me) ?L ?R) = [?L, ?R]"
    and b: "snd (warmed_up_me stacking (runs_to_warm_up ?me) (R2L_ME ?me) ?R ?L) = [?R, ?L]"
    by (simp_all add: warmed_up_me_def stacking_def)
  have "has_shape3 2 4 4 (fst (snd (calculate_disparity stacking ?me ?L ?R)))"
    using t [THEN conjunct2, THEN conjunct1] by simp
  moreover
  have "has_shape3 2 4 4 (snd (snd (calculate_disparity stacking ?me ?L ?R)))"
    using t [THEN conjunct2, THEN conjunct2, THEN conjunct1] by simp
  moreover
  from t [THEN conjunct2, THEN conjunct2, THEN conjunct2, rule_format, of 0 3 3]
  have "fst (snd (calculate_disparity stacking ?me ?L ?R)) ! 0 ! 3 ! 3 = 1"
    and "snd (snd (calculate_disparity stacking ?me ?L ?R)) ! 0 ! 3 ! 3 = 2"
    unfolding f b by simp_all
  ultimately show ?thesis
    using l r by simp
qed

section \<open>Pickling a handler\<close>

lemma unpickle_pickle_ME:
  "unpickle_ME ME (pickle_ME me) =
     MEHandler_init ME (ME_H me) (ME_W me) (loss_metric me) (runs_to_warm_up me)"
  by (simp add: unpickle_ME_def pickle_ME_def)

lemma unpickle_pickle_fresh:
  "unpickle_ME ME (pickle_ME (MEHandler_init ME h w lm runs)) = MEHandler_init ME h w lm runs"
  by (simp add: unpickle_ME_def pickle_ME_def MEHandler_init_def)



text \<open>
  The contract is needed. With a warm-up count of 1 the same mock is not settled after
  the warm-up, and a handler that has been used returns another field than its
  reconstruction.
\<close>

lemma unpickle_ME_disparity_unsettled:
  "snd (calculate_disparity settling
      (unpickle_ME (\<lambda>w h lm. None) (pickle_ME (fst (calculate_disparity settling
        (MEHandler_init (\<lambda>w h lm. None) 256 256 ''colorindependent'' 1) ''L'' ''R''))))
      ''L'' ''R'') \<noteq>
   snd (calculate_disparity settling
      (fst (calculate_disparity settling
        (MEHandler_init (\<lambda>w h lm. None) 256 256 ''colorindependent'' 1) ''L'' ''R''))
      ''L'' ''R'')"
  by (simp add: calculate_disparity_eq unpickle_pickle_ME MEHandler_init_def warmed_up_me_def
      settling_def subsample4_def)

section \<open>The size of the dataset\<close>

lemma SynthDatasetME_train_data:
  "train_data (SynthDatasetME_init ME csv p h w c gm d) =
     (if d \<noteq> 0 then py_slice 0 (min d (int (length csv))) csv else csv)"
  by (simp add: SynthDatasetME_init_def Let_def)

lemma SynthDatasetME_img_names:
  "img_names (SynthDatasetME_init ME csv p h w c gm d) =
     map fst (train_data (SynthDatasetME_init ME csv p h w c gm d))"
  by (simp add: SynthDatasetME_init_def Let_def)

text \<open>
  Claim C9, amended. For a manifest of \<open>n\<close> rows and a positive \<open>dataset_size\<close> \<open>d\<close>
  the dataset has \<open>min d n\<close> entries, they are the first rows of the manifest in
  their order, and the lookup at a position \<open>i\<close> below \<open>min d n\<close> returns the file
  name of row \<open>i\<close>.
\<close>

theorem dataset_size_cap:
  assumes "0 < d"
  shows "SynthDatasetME_len (SynthDatasetME_init ME csv p h w c gm d) = min d (int (length csv)) \<and>
         train_data (SynthDatasetME_init ME csv p h w c gm d) = take (nat d) csv \<and>
         (\<forall>i. 0 \<le> i \<and> i < min d (int (length csv)) \<longrightarrow>
            img_name_at (SynthDatasetME_init ME csv p h w c gm d) i = Inr (fst (csv ! nat i)))"
proof -
  let ?ds = "SynthDatasetME_init ME csv p h w c gm d"
  have td: "train_data ?ds = take (nat d) csv"
    using assms by (simp add: SynthDatasetME_train_data py_slice_prefix_pos min_def)
  have "int (min (length csv) (nat d)) = min d (int (length csv))"
    using assms by (auto simp: min_def)
  then have len: "SynthDatasetME_len ?ds = min d (int (length csv))"
    by (simp add: SynthDatasetME_len_def td)
  have names: "img_names ?ds = map fst (take (nat d) csv)"
    by (simp add: SynthDatasetME_img_names td)
  have "img_name_at ?ds i = Inr (fst (csv ! nat i))"
    if i: "0 \<le> i \<and> i < min d (int (length csv))" for i
  proof -
    from i have "nat i < nat d" "nat i < length csv" by auto
    then have "map fst (take (nat d) csv) ! nat i = fst (csv ! nat i)"
      by simp
    moreover from \<open>nat i < nat d\<close> \<open>nat i < length csv\<close>
    have "nat i < length (img_names ?ds)"
      by (simp add: names)
    with i have "i < int (length (img_names ?ds))"
      by linarith
    ultimately show ?thesis
      using i by (simp add: img_name_at_def names)
  qed
  with td len show ?thesis by blast
qed

text \<open>A manifest of 10 rows capped at 5: length 5, and the names of rows 0 to 4.\<close>

theorem dataset_size_cap_witness:
  "SynthDatasetME_len (SynthDatasetME_init (\<lambda>w h lm. ()) 
      [(''0.png'', []), (''1.png'', []), (''2.png'', []), (''3.png'', []), (''4.png'', []),
       (''5.png'', []), (''6.png'', []), (''7.png'', []), (''8.png'', []), (''9.png'', [])]
      ''img'' 256 256 (1/5) ''affine_simple_4'' 5) = 5 \<and>
   map (img_name_at (SynthDatasetME_init (\<lambda>w h lm. ()) 
      [(''0.png'', []), (''1.png'', []), (''2.png'', []), (''3.png'', []), (''4.png'', []),
       (''5.png'', []), (''6.png'', []), (''7.png'', []), (''8.png'', []), (''9.png'', [])]
      ''img'' 256 256 (1/5) ''affine_simple_4'' 5)) [0, 1, 2, 3, 4] =
     [Inr ''0.png'', Inr ''1.png'', Inr ''2.png'', Inr ''3.png'', Inr ''4.png'']"
  using dataset_size_cap [of 5 "\<lambda>w h lm. ()" 
      "[(''0.png'', []), (''1.png'', []), (''2.png'', []), (''3.png'', []), (''4.png'', []),
       (''5.png'', []), (''6.png'', []), (''7.png'', []), (''8.png'', []), (''9.png'', [])]"
      "''img''" 256 256 "1/5" "''affine_simple_4''"]
  by simp

text \<open>
  Claim C9 as stated covers every nonzero \<open>d\<close>. For \<open>d = -1\<close> and 3 rows the length
  is 2, which is not \<open>min d n = -1\<close>.
\<close>

theorem dataset_size_cap_counterexample:
  "SynthDatasetME_len (SynthDatasetME_init (\<lambda>w h lm. ())
      [(''0.png'', []), (''1.png'', []), (''2.png'', [])] ''img'' 256 256 (1/5) ''affine_simple_4'' (- 1)) \<noteq>
   min (- 1) (int (length [(''0.png'', [] :: string list), (''1.png'', []), (''2.png'', [])]))"
  by (simp add: SynthDatasetME_len_def SynthDatasetME_train_data py_slice_def slice_index_def)

text \<open>
  Claim C10. A negative \<open>dataset_size\<close> \<open>d\<close> is not rejected: \<open>min d n\<close> is \<open>d\<close>, the
  slice \<open>iloc[0:d]\<close> drops the last \<open>|d|\<close> rows, and the length is \<open>max (n + d) 0\<close>.
\<close>

theorem negative_dataset_size:
  assumes "d < 0"
  shows "SynthDatasetME_len (SynthDatasetME_init ME csv p h w c gm d) = max (int (length csv) + d) 0 \<and>
         train_data (SynthDatasetME_init ME csv p h w c gm d) = take (length csv - nat (- d)) csv"
proof -
  let ?ds = "SynthDatasetME_init ME csv p h w c gm d"
  have m: "min d (int (length csv)) = d" using assms by simp
  have td: "train_data ?ds = take (nat (int (length csv) + d)) csv"
    using assms by (simp add: SynthDatasetME_train_data m py_slice_prefix_neg)
  have n: "nat (int (length csv) + d) = length csv - nat (- d)"
    using assms by linarith
  have "int (min (length csv) (nat (int (length csv) + d))) = max (int (length csv) + d) 0"
    using assms by (auto simp: min_def max_def)
  then show ?thesis
    by (simp add: SynthDatasetME_len_def td n)
qed

text \<open>Three rows and \<open>d = -1\<close>: the last row is dropped.\<close>

theorem negative_dataset_size_witness:
  "SynthDatasetME_len (SynthDatasetME_init (\<lambda>w h lm. ())
      [(''0.png'', []), (''1.png'', []), (''2.png'', [])] ''img'' 256 256 (1/5) ''affine_simple_4'' (- 1)) = 2 \<and>
   train_data (SynthDatasetME_init (\<lambda>w h lm. ())
      [(''0.png'', []), (''1.png'', []), (''2.png'', [])] ''img'' 256 256 (1/5) ''affine_simple_4'' (- 1)) =
     [(''0.png'', []), (''1.png'', [])]"
  using negative_dataset_size [of "- 1" "\<lambda>w h lm. ()" "[(''0.png'', []), (''1.png'', []), (''2.png'', [])]"
      "''img''" 256 256 "1/5" "''affine_simple_4''"]
  by simp

section \<open>The size of the handler a dataset constructs\<close>

lemma py_int_of_int: "py_int (real_of_int n) = n"
  by (simp add: py_int_def)

text \<open>The two sizes agree where \<open>h * crop\<close> is an even integer.\<close>

lemma me_handler_size_even_crop:
  assumes "real_of_int h * crp = real_of_int (2 * k)"
  shows "ME_H (me_handler (SynthDatasetME_init ME csv p h w crp gm dsz)) =
         h - 2 * (py_int (real_of_int h * crp) div 2)"
proof -
  have "real_of_int h - real_of_int h * crp = real_of_int (h - 2 * k)"
    using assms by simp
  then have "py_int (real_of_int h - real_of_int h * crp) = h - 2 * k"
    by (simp only: py_int_of_int)
  moreover have "py_int (real_of_int h * crp) div 2 = k"
    by (simp only: assms py_int_of_int)
  ultimately show ?thesis
    by (simp add: SynthDatasetME_init_def Let_def MEHandler_init_def)
qed

text \<open>
  Claim C2. The claim has the handler sized to the images after the crop. For
  \<open>h = w = 256\<close> and crop 0.2 the builder sizes it \<open>int(256 - 51.2) = 204\<close> each way,
  while the warper's offsets are 25 and the cropped images are 206 by 206.
\<close>

theorem me_handler_size_mismatch:
  "ME_H (me_handler (SynthDatasetME_init ME csv p 256 256 (1 / 5) gm dsz)) = 204 \<and>
   ME_W (me_handler (SynthDatasetME_init ME csv p 256 256 (1 / 5) gm dsz)) = 204 \<and>
   (case Warper_init 256 256 ''affine_simple_4'' (1 / 5) identity_draws of
      Inl e \<Rightarrow> False
    | Inr wp \<Rightarrow> Warper_H wp - 2 * H_off wp = 206 \<and> Warper_W wp - 2 * W_off wp = 206 \<and>
               has_shape2 206 206 (Warper_crop wp (replicate 256 (replicate 256 (0 :: nat)))))"
proof -
  have "ME_H (me_handler (SynthDatasetME_init ME csv p 256 256 (1 / 5) gm dsz)) = 204"
    and "ME_W (me_handler (SynthDatasetME_init ME csv p 256 256 (1 / 5) gm dsz)) = 204"
    by (simp_all add: SynthDatasetME_init_def Let_def MEHandler_init_def py_int_def)
  moreover have "has_shape2 256 256 (replicate 256 (replicate 256 (0 :: nat)))"
    by (simp add: has_shape2_def list_all_iff)
  then have "has_shape2 206 206 (Warper_crop
      \<lparr> add_tx = Some True, add_ty = None, Warper_H = 256, Warper_W = 256, H_off = 25, W_off = 25,
         mat = [[1, 0, 64 / 5], [0, 1, 0]], theta = [Some 0, Some 1, Some 0, Some (1 / 20)] \<rparr>
      (replicate 256 (replicate 256 (0 :: nat))))"
    using Warper_crop_positive_offsets(1) [of 256 256 "replicate 256 (replicate 256 (0 :: nat))"
      "\<lparr> add_tx = Some True, add_ty = None, Warper_H = 256, Warper_W = 256, H_off = 25, W_off = 25,
         mat = [[1, 0, 64 / 5], [0, 1, 0]], theta = [Some 0, Some 1, Some 0, Some (1 / 20)] \<rparr>"]
    by simp
  ultimately show ?thesis
    by (simp add: Warper_init_identity_draws py_int_def np_div_def)
qed

end
